theory Spec2Isabelle
  imports Complex_Main "HOL-Library.Word" "HOL-Library.Multiset" "HOL-Library.AList"
begin

section \<open>Machine types of the sources\<close>

text \<open>
  Feature identifiers are \<^verbatim>\<open>uint64_t\<close>; labels, iteration numbers and the entries of
  phrases are C++ \<^verbatim>\<open>int\<close> (32 bits, read as two's complement with \<open>sint\<close>).
  The weights are \<^verbatim>\<open>double\<close> in the sources. Functions that only copy, compare and add
  weights are kept polymorphic in the weight type \<open>'w\<close>, so that what is proved about them
  holds for any addition (no associativity, commutativity or unit law is used), the
  rounding addition of \<^verbatim>\<open>double\<close> included. Claims that are algebraic identities
  (averaging, norms, sums over multisets) are stated at type \<open>real\<close>, that is, in exact
  arithmetic.
\<close>

type_synonym uint64 = "64 word"
type_synonym cint = "32 word"

section \<open>CoreferenceDictionary.h: GenderNumberStatistics\<close>

text \<open>
  \<^verbatim>\<open>std::map<std::vector<int>, std::vector<int> > phrase_counts_\<close> is a finite map from
  phrases to count vectors.
\<close>

record GenderNumberStatistics =
  phrase_counts :: "cint list \<rightharpoonup> cint list"

definition Clear :: "GenderNumberStatistics \<Rightarrow> GenderNumberStatistics" where
  "Clear s = s\<lparr>phrase_counts := Map.empty\<rparr>"

text \<open>
  \<^verbatim>\<open>AddPhrase\<close> (lines 40-48): the boolean result together with the object after the
  call.
\<close>

definition AddPhrase ::
  "GenderNumberStatistics \<Rightarrow> cint list \<Rightarrow> cint list \<Rightarrow> bool \<times> GenderNumberStatistics" where
  "AddPhrase s phrase counts =
     (if phrase_counts s phrase = None
      then (True, s\<lparr>phrase_counts := (phrase_counts s)(phrase \<mapsto> counts)\<rparr>)
      else (False, s))"

section \<open>Parameters.h: FeatureLabelCache\<close>

record FeatureLabelPair =
  feature :: uint64
  label :: cint

text \<open>
  \<^verbatim>\<open>FeatureLabelPairHashMap\<close> is an \<^verbatim>\<open>unordered_map\<close> whose key equality
  (\<^verbatim>\<open>FeatureLabelPairMapper\<close>, line 49) compares both fields: a finite map on pairs.
\<close>

record 'w FeatureLabelCache =
  cache :: "FeatureLabelPair \<rightharpoonup> 'w"
  hits_count :: uint64
  misses_count :: uint64

definition FeatureLabelCache_new :: "'w FeatureLabelCache" where
  "FeatureLabelCache_new = \<lparr>cache = Map.empty, hits_count = 0, misses_count = 0\<rparr>"

text \<open>The accessors return \<^verbatim>\<open>int\<close>: the 64-bit counter is cut to 32 bits.\<close>

definition hits_int :: "'w FeatureLabelCache \<Rightarrow> cint" where
  "hits_int c = ucast (hits_count c)"

definition misses_int :: "'w FeatureLabelCache \<Rightarrow> cint" where
  "misses_int c = ucast (misses_count c)"

definition IncrementHits :: "'w FeatureLabelCache \<Rightarrow> 'w FeatureLabelCache" where
  "IncrementHits c = c\<lparr>hits_count := hits_count c + 1\<rparr>"

definition IncrementMisses :: "'w FeatureLabelCache \<Rightarrow> 'w FeatureLabelCache" where
  "IncrementMisses c = c\<lparr>misses_count := misses_count c + 1\<rparr>"

text \<open>
  \<^verbatim>\<open>Insert\<close> (lines 74-76) calls \<^verbatim>\<open>unordered_map::insert\<close>, which stores the pair
  only when the map holds no element with that key.
\<close>

definition Insert :: "'w FeatureLabelCache \<Rightarrow> FeatureLabelPair \<Rightarrow> 'w \<Rightarrow> 'w FeatureLabelCache" where
  "Insert c key v =
     (case cache c key of
        None \<Rightarrow> c\<lparr>cache := (cache c)(key \<mapsto> v)\<rparr>
      | Some _ \<Rightarrow> c)"

text \<open>
  \<^verbatim>\<open>Find\<close> (lines 81-89) returns \<^verbatim>\<open>true\<close> and writes the value through the pointer
  when the key is found, and returns \<^verbatim>\<open>false\<close> leaving the pointee untouched otherwise:
  \<open>Some value\<close> and \<open>None\<close>.
\<close>

definition Find :: "'w FeatureLabelCache \<Rightarrow> FeatureLabelPair \<Rightarrow> 'w option" where
  "Find c key = cache c key"

section \<open>The weight stores used by Parameters.h\<close>

text \<open>
  \<^verbatim>\<open>SparseParameterVector.h\<close> and \<^verbatim>\<open>SparseLabeledParameterVector.h\<close> are included by
  \<^verbatim>\<open>Parameters.h\<close> but are not among the sources. The two stores are modelled from the
  specification (sections 3, 4.1 and 4.2): a store is a list of entries with unique keys,
  in insertion order, and a growth lock.
\<close>

record 'w SparseParameterVector =
  spv_entries :: "(uint64 \<times> 'w) list"
  spv_growth_stopped :: bool

definition spv_Initialize :: "'w SparseParameterVector" where
  \<comment> \<open>Modelled from the spec: \<^verbatim>\<open>SparseParameterVector::Initialize\<close> is missing; a fresh
     store holds no key and may grow.\<close>
  "spv_Initialize = \<lparr>spv_entries = [], spv_growth_stopped = False\<rparr>"

definition spv_StopGrowth :: "'w SparseParameterVector \<Rightarrow> 'w SparseParameterVector" where
  \<comment> \<open>Modelled from the spec: \<^verbatim>\<open>SparseParameterVector::StopGrowth\<close> is missing; it
     freezes the key set.\<close>
  "spv_StopGrowth v = v\<lparr>spv_growth_stopped := True\<rparr>"

definition spv_AllowGrowth :: "'w SparseParameterVector \<Rightarrow> 'w SparseParameterVector" where
  \<comment> \<open>Modelled from the spec: \<^verbatim>\<open>SparseParameterVector::AllowGrowth\<close> is missing; unseen
     keys may be inserted again.\<close>
  "spv_AllowGrowth v = v\<lparr>spv_growth_stopped := False\<rparr>"

definition spv_Size :: "'w SparseParameterVector \<Rightarrow> nat" where
  \<comment> \<open>Modelled from the spec: \<^verbatim>\<open>SparseParameterVector::Size\<close> is missing; the number of
     distinct keys.\<close>
  "spv_Size v = length (spv_entries v)"

definition spv_Exists :: "'w SparseParameterVector \<Rightarrow> uint64 \<Rightarrow> bool" where
  \<comment> \<open>Modelled from the spec: \<^verbatim>\<open>SparseParameterVector::Exists\<close> is missing; it tells a
     present key (whatever its weight) from an absent one.\<close>
  "spv_Exists v key = (map_of (spv_entries v) key \<noteq> None)"

definition spv_Get :: "('w::zero) SparseParameterVector \<Rightarrow> uint64 \<Rightarrow> 'w" where
  \<comment> \<open>Modelled from the spec: \<^verbatim>\<open>SparseParameterVector::Get\<close> is missing; it returns 0.0
     for an absent key.\<close>
  "spv_Get v key = (case map_of (spv_entries v) key of None \<Rightarrow> 0 | Some w \<Rightarrow> w)"

definition spv_Add ::
  "('w::{zero,plus}) SparseParameterVector \<Rightarrow> uint64 \<Rightarrow> 'w \<Rightarrow> 'w SparseParameterVector" where
  \<comment> \<open>Modelled from the spec: \<^verbatim>\<open>SparseParameterVector::Add(key, value)\<close> is missing;
     \<^verbatim>\<open>weight[id] += delta\<close>, creating the key (from 0.0) if growth is allowed and
     ignoring the write to an unseen key otherwise.\<close>
  "spv_Add v key delta =
     (if spv_Exists v key
      then v\<lparr>spv_entries := AList.map_entry key (\<lambda>w. w + delta) (spv_entries v)\<rparr>
      else if spv_growth_stopped v then v
      else v\<lparr>spv_entries := spv_entries v @ [(key, 0 + delta)]\<rparr>)"

definition spv_AddVector ::
  "('w::{zero,plus}) SparseParameterVector \<Rightarrow> 'w SparseParameterVector \<Rightarrow> 'w SparseParameterVector" where
  \<comment> \<open>Modelled from the spec: \<^verbatim>\<open>SparseParameterVector::Add(const SparseParameterVector&)\<close>
     is missing; Finalize uses it to add the scaled averaged store into the live one, entry
     by entry.\<close>
  "spv_AddVector v other = fold (\<lambda>(key, w) u. spv_Add u key w) (spv_entries other) v"

definition spv_Scale ::
  "('w::times) SparseParameterVector \<Rightarrow> 'w \<Rightarrow> 'w SparseParameterVector" where
  \<comment> \<open>Modelled from the spec: \<^verbatim>\<open>SparseParameterVector::Scale\<close> is missing; it multiplies
     every stored weight by the factor.\<close>
  "spv_Scale v scale_factor =
     v\<lparr>spv_entries := map (\<lambda>(key, w). (key, w * scale_factor)) (spv_entries v)\<rparr>"

definition spv_GetSquaredNorm :: "real SparseParameterVector \<Rightarrow> real" where
  \<comment> \<open>Modelled from the spec: \<^verbatim>\<open>SparseParameterVector::GetSquaredNorm\<close> is missing; the
     sum of the squares of all stored weights.\<close>
  "spv_GetSquaredNorm v = (\<Sum>(key, w)\<leftarrow>spv_entries v. w * w)"

text \<open>
  The labeled store maps a feature id to a small sparse vector over label ids
  (specification, section 3).
\<close>

record 'w SparseLabeledParameterVector =
  slpv_entries :: "(uint64 \<times> (cint \<times> 'w) list) list"
  slpv_growth_stopped :: bool

definition slpv_Initialize :: "'w SparseLabeledParameterVector" where
  \<comment> \<open>Modelled from the spec: \<^verbatim>\<open>SparseLabeledParameterVector::Initialize\<close> is missing; a
     fresh store holds no key and may grow.\<close>
  "slpv_Initialize = \<lparr>slpv_entries = [], slpv_growth_stopped = False\<rparr>"

definition slpv_StopGrowth :: "'w SparseLabeledParameterVector \<Rightarrow> 'w SparseLabeledParameterVector" where
  \<comment> \<open>Modelled from the spec: \<^verbatim>\<open>SparseLabeledParameterVector::StopGrowth\<close> is missing.\<close>
  "slpv_StopGrowth v = v\<lparr>slpv_growth_stopped := True\<rparr>"

definition slpv_AllowGrowth :: "'w SparseLabeledParameterVector \<Rightarrow> 'w SparseLabeledParameterVector" where
  \<comment> \<open>Modelled from the spec: \<^verbatim>\<open>SparseLabeledParameterVector::AllowGrowth\<close> is missing.\<close>
  "slpv_AllowGrowth v = v\<lparr>slpv_growth_stopped := False\<rparr>"

definition slpv_Size :: "'w SparseLabeledParameterVector \<Rightarrow> nat" where
  \<comment> \<open>Modelled from the spec: \<^verbatim>\<open>SparseLabeledParameterVector::Size\<close> is missing; a labeled
     feature counts once, whatever the number of its labels.\<close>
  "slpv_Size v = length (slpv_entries v)"

definition slpv_Exists :: "'w SparseLabeledParameterVector \<Rightarrow> uint64 \<Rightarrow> bool" where
  \<comment> \<open>Modelled from the spec: \<^verbatim>\<open>SparseLabeledParameterVector::Exists(key)\<close> is missing;
     whether the feature id has labeled weights at all.\<close>
  "slpv_Exists v key = (map_of (slpv_entries v) key \<noteq> None)"

definition label_weight :: "(cint \<times> ('w::zero)) list \<Rightarrow> cint \<Rightarrow> 'w" where
  \<comment> \<open>Modelled from the spec: the weight of one label in the sparse label vector of a
     feature, 0.0 where the pair is absent.\<close>
  "label_weight lw l = (case map_of lw l of None \<Rightarrow> 0 | Some w \<Rightarrow> w)"

definition slpv_Get ::
  "('w::zero) SparseLabeledParameterVector \<Rightarrow> uint64 \<Rightarrow> cint list \<Rightarrow> bool \<times> 'w list" where
  \<comment> \<open>Modelled from the spec: \<^verbatim>\<open>SparseLabeledParameterVector::Get(key, labels, weights)\<close>
     is missing; one weight per requested label, in the order requested, and a flag that
     is false only if the feature has no labeled weights at all, in which case the output
     vector is empty (comment at lines 185-186 of Parameters.h).\<close>
  "slpv_Get v key labels =
     (case map_of (slpv_entries v) key of
        None \<Rightarrow> (False, [])
      | Some lw \<Rightarrow> (True, map (label_weight lw) labels))"

definition add_label :: "cint \<Rightarrow> ('w::{zero,plus}) \<Rightarrow> bool \<Rightarrow> (cint \<times> 'w) list \<Rightarrow> (cint \<times> 'w) list" where
  \<comment> \<open>Modelled from the spec: the update of one (feature, label) cell; an unseen pair is
     created only while growth is allowed.\<close>
  "add_label l delta stopped lw =
     (if map_of lw l \<noteq> None then AList.map_entry l (\<lambda>w. w + delta) lw
      else if stopped then lw
      else lw @ [(l, 0 + delta)])"

definition slpv_Add ::
  "('w::{zero,plus}) SparseLabeledParameterVector \<Rightarrow> uint64 \<Rightarrow> cint \<Rightarrow> 'w
     \<Rightarrow> 'w SparseLabeledParameterVector" where
  \<comment> \<open>Modelled from the spec: \<^verbatim>\<open>SparseLabeledParameterVector::Add(key, label, value)\<close>
     is missing; it updates a single (feature, label) entry.\<close>
  "slpv_Add v key l delta =
     (if slpv_Exists v key
      then v\<lparr>slpv_entries :=
             AList.map_entry key (add_label l delta (slpv_growth_stopped v)) (slpv_entries v)\<rparr>
      else if slpv_growth_stopped v then v
      else v\<lparr>slpv_entries := slpv_entries v @ [(key, [(l, 0 + delta)])]\<rparr>)"

definition slpv_AddVector ::
  "('w::{zero,plus}) SparseLabeledParameterVector \<Rightarrow> 'w SparseLabeledParameterVector
     \<Rightarrow> 'w SparseLabeledParameterVector" where
  \<comment> \<open>Modelled from the spec:
     \<^verbatim>\<open>SparseLabeledParameterVector::Add(const SparseLabeledParameterVector&)\<close> is missing;
     Finalize uses it to add the scaled averaged store into the live one, cell by cell.\<close>
  "slpv_AddVector v other =
     fold (\<lambda>(key, lw) u. fold (\<lambda>(l, w) u'. slpv_Add u' key l w) lw u) (slpv_entries other) v"

definition slpv_Scale ::
  "('w::times) SparseLabeledParameterVector \<Rightarrow> 'w \<Rightarrow> 'w SparseLabeledParameterVector" where
  \<comment> \<open>Modelled from the spec: \<^verbatim>\<open>SparseLabeledParameterVector::Scale\<close> is missing; it
     multiplies every stored weight by the factor.\<close>
  "slpv_Scale v scale_factor =
     v\<lparr>slpv_entries :=
         map (\<lambda>(key, lw). (key, map (\<lambda>(l, w). (l, w * scale_factor)) lw)) (slpv_entries v)\<rparr>"

definition slpv_GetSquaredNorm :: "real SparseLabeledParameterVector \<Rightarrow> real" where
  \<comment> \<open>Modelled from the spec: \<^verbatim>\<open>SparseLabeledParameterVector::GetSquaredNorm\<close> is missing;
     the sum of the squares of all stored weights.\<close>
  "slpv_GetSquaredNorm v = (\<Sum>(key, lw)\<leftarrow>slpv_entries v. \<Sum>(l, w)\<leftarrow>lw. w * w)"

section \<open>Parameters.h: Parameters\<close>

record 'w Parameters =
  use_average :: bool
  weights :: "'w SparseParameterVector"
  averaged_weights :: "'w SparseParameterVector"
  labeled_weights :: "'w SparseLabeledParameterVector"
  averaged_labeled_weights :: "'w SparseLabeledParameterVector"
  caching_weights :: "'w FeatureLabelCache"

definition Parameters_new :: "'w Parameters" where
  \<comment> \<open>The constructor (lines 133-135) sets \<^verbatim>\<open>use_average_\<close>; the cache starts with both
     counters at 0. Modelled from the spec: the constructors of the four stores are
     missing; a new store holds no key and may grow.\<close>
  "Parameters_new =
     \<lparr>use_average = True,
      weights = spv_Initialize, averaged_weights = spv_Initialize,
      labeled_weights = slpv_Initialize, averaged_labeled_weights = slpv_Initialize,
      caching_weights = FeatureLabelCache_new\<rparr>"

text \<open>\<^verbatim>\<open>Initialize\<close> (lines 143-149).\<close>

definition Initialize :: "'w Parameters \<Rightarrow> bool \<Rightarrow> 'w Parameters" where
  "Initialize P use_avg =
     P\<lparr>use_average := use_avg,
       weights := spv_Initialize,
       averaged_weights := (if use_avg then spv_Initialize else averaged_weights P),
       labeled_weights := slpv_Initialize,
       averaged_labeled_weights :=
         (if use_avg then slpv_Initialize else averaged_labeled_weights P)\<rparr>"

text \<open>\<^verbatim>\<open>StopGrowth\<close> and \<^verbatim>\<open>AllowGrowth\<close> (lines 153-164).\<close>

definition StopGrowth :: "'w Parameters \<Rightarrow> 'w Parameters" where
  "StopGrowth P =
     P\<lparr>weights := spv_StopGrowth (weights P),
       averaged_weights := spv_StopGrowth (averaged_weights P),
       labeled_weights := slpv_StopGrowth (labeled_weights P),
       averaged_labeled_weights := slpv_StopGrowth (averaged_labeled_weights P)\<rparr>"

definition AllowGrowth :: "'w Parameters \<Rightarrow> 'w Parameters" where
  "AllowGrowth P =
     P\<lparr>weights := spv_AllowGrowth (weights P),
       averaged_weights := spv_AllowGrowth (averaged_weights P),
       labeled_weights := slpv_AllowGrowth (labeled_weights P),
       averaged_labeled_weights := slpv_AllowGrowth (averaged_labeled_weights P)\<rparr>"

text \<open>The queries of lines 169-196. The two overloads of \<^verbatim>\<open>Get\<close> get two names.\<close>

definition Size :: "'w Parameters \<Rightarrow> nat" where
  "Size P = spv_Size (weights P) + slpv_Size (labeled_weights P)"

definition Exists :: "'w Parameters \<Rightarrow> uint64 \<Rightarrow> bool" where
  "Exists P key = spv_Exists (weights P) key"

definition ExistsLabeled :: "'w Parameters \<Rightarrow> uint64 \<Rightarrow> bool" where
  "ExistsLabeled P key = slpv_Exists (labeled_weights P) key"

definition Get :: "('w::zero) Parameters \<Rightarrow> uint64 \<Rightarrow> 'w" where
  "Get P key = spv_Get (weights P) key"

definition Get_labels :: "('w::zero) Parameters \<Rightarrow> uint64 \<Rightarrow> cint list \<Rightarrow> bool \<times> 'w list" where
  "Get_labels P key labels = slpv_Get (labeled_weights P) key labels"

definition GetSquaredNorm :: "real Parameters \<Rightarrow> real" where
  "GetSquaredNorm P = spv_GetSquaredNorm (weights P) + slpv_GetSquaredNorm (labeled_weights P)"

text \<open>
  \<^verbatim>\<open>ComputeScore\<close> (lines 199-205): the loop over \<^verbatim>\<open>j\<close> reads \<^verbatim>\<open>features[j]\<close> from
  first to last and adds into \<^verbatim>\<open>score\<close>, which starts at 0.0.
\<close>

definition ComputeScore :: "('w::{zero,plus}) Parameters \<Rightarrow> uint64 list \<Rightarrow> 'w" where
  "ComputeScore P features = fold (\<lambda>f score. score + Get P f) features 0"

text \<open>
  \<^verbatim>\<open>ComputeLabelScores\<close> (lines 210-222). The inner loop (lines 218-220) adds
  \<^verbatim>\<open>label_scores[k]\<close> into \<^verbatim>\<open>(*scores)[k]\<close> for \<open>k\<close> below \<^verbatim>\<open>labels.size()\<close>; both
  vectors have that size when it runs. The local \<^verbatim>\<open>label_scores\<close> is overwritten by each
  call of \<^verbatim>\<open>Get\<close> before it is read.
\<close>

definition add_label_scores :: "('w::plus) list \<Rightarrow> 'w list \<Rightarrow> nat \<Rightarrow> 'w list" where
  "add_label_scores scores label_scores n =
     fold (\<lambda>k s. s[k := s ! k + label_scores ! k]) [0..<n] scores"

definition ComputeLabelScores :: "('w::{zero,plus}) Parameters \<Rightarrow> uint64 list \<Rightarrow> cint list \<Rightarrow> 'w list" where
  "ComputeLabelScores P features labels =
     fold (\<lambda>f scores.
             let (found, label_scores) = Get_labels P f labels in
             if \<not> found then scores
             else add_label_scores scores label_scores (length labels))
          features (replicate (length labels) 0)"

text \<open>
  \<^verbatim>\<open>ComputeLabelScoresWithCache\<close> (lines 229-268). \<open>cache_lookup_step\<close> is the body of
  the loop of lines 246-257 at index \<open>k\<close>, on the state (\<^verbatim>\<open>reduced_labels\<close>,
  \<^verbatim>\<open>adjust_new_index_reduced_labels\<close>, \<^verbatim>\<open>*scores\<close>, \<^verbatim>\<open>caching_weights_\<close>);
  \<open>cache_store_step\<close> is the body of the loop of lines 260-266; \<open>score_feature_with_cache\<close>
  is one round of the loop over \<^verbatim>\<open>j\<close> (lines 242-266) with its three \<^verbatim>\<open>continue\<close>s.
  The function returns the scores and the object with its updated cache.
\<close>

definition cache_lookup_step ::
  "uint64 \<Rightarrow> cint list \<Rightarrow> nat
     \<Rightarrow> cint list \<times> nat list \<times> ('w::plus) list \<times> 'w FeatureLabelCache
     \<Rightarrow> cint list \<times> nat list \<times> 'w list \<times> 'w FeatureLabelCache" where
  "cache_lookup_step f labels k =
     (\<lambda>(reduced_labels, adjust, scores, c).
        case Find c \<lparr>feature = f, label = labels ! k\<rparr> of
          None \<Rightarrow> (reduced_labels @ [labels ! k], adjust @ [k], scores, IncrementMisses c)
        | Some caching_value \<Rightarrow>
            (reduced_labels, adjust, scores[k := scores ! k + caching_value], IncrementHits c))"

definition cache_store_step ::
  "uint64 \<Rightarrow> cint list \<Rightarrow> nat list \<Rightarrow> ('w::plus) list \<Rightarrow> nat
     \<Rightarrow> 'w list \<times> 'w FeatureLabelCache \<Rightarrow> 'w list \<times> 'w FeatureLabelCache" where
  "cache_store_step f reduced_labels adjust label_scores k =
     (\<lambda>(scores, c).
        (scores[adjust ! k := scores ! (adjust ! k) + label_scores ! k],
         Insert c \<lparr>feature = f, label = reduced_labels ! k\<rparr> (label_scores ! k)))"

definition score_feature_with_cache ::
  "('w::{zero,plus}) Parameters \<Rightarrow> cint list \<Rightarrow> uint64
     \<Rightarrow> 'w list \<times> 'w FeatureLabelCache \<Rightarrow> 'w list \<times> 'w FeatureLabelCache" where
  "score_feature_with_cache P labels f =
     (\<lambda>(scores, c).
        if \<not> ExistsLabeled P f then (scores, c)
        else
          let (reduced_labels, adjust, scores1, c1) =
                fold (cache_lookup_step f labels) [0..<length labels] ([], [], scores, c) in
          if length reduced_labels = 0 then (scores1, c1)
          else
            let (found, label_scores) = Get_labels P f reduced_labels in
            if \<not> found then (scores1, c1)
            else fold (cache_store_step f reduced_labels adjust label_scores)
                   [0..<length reduced_labels] (scores1, c1))"

definition ComputeLabelScoresWithCache ::
  "('w::{zero,plus}) Parameters \<Rightarrow> uint64 list \<Rightarrow> cint list \<Rightarrow> 'w list \<times> 'w Parameters" where
  "ComputeLabelScoresWithCache P features labels =
     (let (scores, c) =
            fold (score_feature_with_cache P labels) features
              (replicate (length labels) 0, caching_weights P)
      in (scores, P\<lparr>caching_weights := c\<rparr>))"

text \<open>\<^verbatim>\<open>Scale\<close> (lines 272-275).\<close>

definition Scale :: "('w::times) Parameters \<Rightarrow> 'w \<Rightarrow> 'w Parameters" where
  "Scale P scale_factor =
     P\<lparr>weights := spv_Scale (weights P) scale_factor,
       labeled_weights := slpv_Scale (labeled_weights P) scale_factor\<rparr>"

text \<open>
  \<^verbatim>\<open>MakeGradientStep\<close> (lines 281-295) and \<^verbatim>\<open>MakeLabelGradientStep\<close> (lines 301-316),
  in exact arithmetic. \<^verbatim>\<open>static_cast<double>(iteration)\<close> is the value of the
  \<^verbatim>\<open>int\<close>.
\<close>

definition gradient_step_feature ::
  "real \<Rightarrow> cint \<Rightarrow> real \<Rightarrow> uint64 \<Rightarrow> real Parameters \<Rightarrow> real Parameters" where
  "gradient_step_feature eta iteration gradient f P =
     (let P1 = P\<lparr>weights := spv_Add (weights P) f (- eta * gradient)\<rparr> in
      if use_average P1
      then P1\<lparr>averaged_weights :=
                spv_Add (averaged_weights P1) f (real_of_int (sint iteration) * eta * gradient)\<rparr>
      else P1)"

definition MakeGradientStep ::
  "real Parameters \<Rightarrow> uint64 list \<Rightarrow> real \<Rightarrow> cint \<Rightarrow> real \<Rightarrow> real Parameters" where
  "MakeGradientStep P features eta iteration gradient =
     fold (gradient_step_feature eta iteration gradient) features P"

definition MakeLabelGradientStep ::
  "real Parameters \<Rightarrow> uint64 list \<Rightarrow> real \<Rightarrow> cint \<Rightarrow> cint \<Rightarrow> real \<Rightarrow> real Parameters" where
  "MakeLabelGradientStep P features eta iteration l gradient =
     (let P1 = fold (\<lambda>f Q. Q\<lparr>labeled_weights :=
                                slpv_Add (labeled_weights Q) f l (- eta * gradient)\<rparr>)
                 features P in
      if use_average P1
      then fold (\<lambda>f Q. Q\<lparr>averaged_labeled_weights :=
                           slpv_Add (averaged_labeled_weights Q) f l
                             (real_of_int (sint iteration) * eta * gradient)\<rparr>)
             features P1
      else P1)"

text \<open>
  \<^verbatim>\<open>Finalize\<close> (lines 321-333). With \<^verbatim>\<open>use_average_\<close> set and \<^verbatim>\<open>num_iterations\<close>
  equal to 0 the factor \<^verbatim>\<open>1.0 / 0\<close> is an IEEE infinity, which exact arithmetic does not
  have: the model gives \<open>None\<close> there and \<open>Some\<close> of the object after the call everywhere
  else.
\<close>

definition Finalize :: "real Parameters \<Rightarrow> cint \<Rightarrow> real Parameters option" where
  "Finalize P num_iterations =
     (if use_average P then
        if sint num_iterations = 0 then None
        else
          let avg = spv_Scale (averaged_weights P) (1 / real_of_int (sint num_iterations));
              w = spv_AddVector (weights P) avg;
              lavg = slpv_Scale (averaged_labeled_weights P)
                       (1 / real_of_int (sint num_iterations));
              lw = slpv_AddVector (labeled_weights P) lavg
          in Some (P\<lparr>averaged_weights := avg, weights := w,
                     averaged_labeled_weights := lavg, labeled_weights := lw\<rparr>)
      else Some P)"

section \<open>Notions used to state the claims\<close>





text \<open>
  The cache agrees with the labeled store: every cached (feature, label) entry of a
  feature the store knows holds the weight that the store returns for that pair.
\<close>

definition cache_consistent :: "('w::zero) Parameters \<Rightarrow> 'w FeatureLabelCache \<Rightarrow> bool" where
  "cache_consistent P c =
     (\<forall>f l v. Find c \<lparr>feature = f, label = l\<rparr> = Some v \<longrightarrow> ExistsLabeled P f \<longrightarrow>
        Get_labels P f [l] = (True, [v]))"






section \<open>DependencyLabelerDecoder.h: DecodeCostAugmented\<close>





section \<open>Theorems\<close>

text \<open>Unfolding sets for evaluating the model on concrete inputs.\<close>

lemmas store_defs = spv_Initialize_def slpv_Initialize_def spv_Exists_def spv_Get_def spv_Add_def
  spv_Scale_def spv_AddVector_def spv_GetSquaredNorm_def slpv_Exists_def slpv_Get_def slpv_Add_def
  slpv_Scale_def slpv_AddVector_def slpv_GetSquaredNorm_def label_weight_def add_label_def
  spv_StopGrowth_def spv_AllowGrowth_def slpv_StopGrowth_def slpv_AllowGrowth_def

lemmas param_defs = Parameters_new_def Initialize_def FeatureLabelCache_new_def Exists_def
  ExistsLabeled_def Get_def Get_labels_def GetSquaredNorm_def ComputeScore_def MakeGradientStep_def
  gradient_step_feature_def Finalize_def Scale_def StopGrowth_def AllowGrowth_def
  MakeLabelGradientStep_def

lemmas cache_defs = ComputeLabelScoresWithCache_def score_feature_with_cache_def
  cache_lookup_step_def cache_store_step_def ComputeLabelScores_def add_label_scores_def
  Find_def Insert_def IncrementHits_def IncrementMisses_def


subsection \<open>FeatureLabelCache\<close>

lemma Find_Insert_other: "key' \<noteq> key \<Longrightarrow> Find (Insert c key v) key' = Find c key'"
  by (simp add: Find_def Insert_def split: option.split)

lemma Insert_counters: "hits_count (Insert c key v) = hits_count c \<and> misses_count (Insert c key v) = misses_count c"
  by (simp add: Insert_def split: option.split)

text \<open>
  Claim C9. Insertion into the cache is first-write-wins: when \<open>Find\<close> of a key fails,
  then after \<open>Insert\<close> of the key with a value \<open>Find\<close> succeeds with that value; when
  \<open>Find\<close> already succeeds with \<open>v0\<close>, then after \<open>Insert\<close> of the key with any value
  \<open>Find\<close> still yields \<open>v0\<close>.
\<close>

theorem C9_insert_first_write_wins:
  "(Find c k = None \<longrightarrow> Find (Insert c k v) k = Some v) \<and>
   (Find c k = Some v0 \<longrightarrow> Find (Insert c k v') k = Some v0)"
  by (simp add: Find_def Insert_def)

theorem C9_insert_first_write_wins_witness:
  "Find (FeatureLabelCache_new :: real FeatureLabelCache) \<lparr>feature = 7, label = 2\<rparr> = None \<and>
   Find (Insert (FeatureLabelCache_new :: real FeatureLabelCache) \<lparr>feature = 7, label = 2\<rparr> 5)
        \<lparr>feature = 7, label = 2\<rparr> = Some 5 \<and>
   Find (Insert (Insert (FeatureLabelCache_new :: real FeatureLabelCache)
                   \<lparr>feature = 7, label = 2\<rparr> 5) \<lparr>feature = 7, label = 2\<rparr> 9)
        \<lparr>feature = 7, label = 2\<rparr> = Some 5"
  using C9_insert_first_write_wins
          [of "FeatureLabelCache_new :: real FeatureLabelCache" "\<lparr>feature = 7, label = 2\<rparr>" 5 5 9]
        C9_insert_first_write_wins
          [of "Insert (FeatureLabelCache_new :: real FeatureLabelCache) \<lparr>feature = 7, label = 2\<rparr> 5"
              "\<lparr>feature = 7, label = 2\<rparr>" 9 5 9]
  by (simp add: Find_def Insert_def FeatureLabelCache_new_def)

subsection \<open>GenderNumberStatistics\<close>

text \<open>
  Claim C10. \<open>AddPhrase\<close> returns true exactly when the phrase was not present before;
  then the stored mapping is the old one with the counts recorded for the phrase. When the
  phrase is already present it returns false and the object, with the counts stored for
  that phrase, is unchanged.
\<close>

theorem C10_AddPhrase:
  "fst (AddPhrase s phrase counts) = (phrase \<notin> dom (phrase_counts s)) \<and>
   (phrase \<notin> dom (phrase_counts s) \<longrightarrow>
      phrase_counts (snd (AddPhrase s phrase counts)) = (phrase_counts s)(phrase \<mapsto> counts)) \<and>
   (phrase \<in> dom (phrase_counts s) \<longrightarrow> snd (AddPhrase s phrase counts) = s)"
  by (auto simp: AddPhrase_def)

theorem C10_AddPhrase_witness:
  "[1, 2] \<notin> dom (phrase_counts \<lparr>phrase_counts = Map.empty\<rparr>) \<and>
   fst (AddPhrase \<lparr>phrase_counts = Map.empty\<rparr> [1, 2] [3, 4]) \<and>
   phrase_counts (snd (AddPhrase \<lparr>phrase_counts = Map.empty\<rparr> [1, 2] [3, 4])) [1, 2] = Some [3, 4] \<and>
   [1, 2] \<in> dom (phrase_counts \<lparr>phrase_counts = [[1, 2] \<mapsto> [3, 4]]\<rparr>) \<and>
   AddPhrase \<lparr>phrase_counts = [[1, 2] \<mapsto> [3, 4]]\<rparr> [1, 2] [9] =
     (False, \<lparr>phrase_counts = [[1, 2] \<mapsto> [3, 4]]\<rparr>)"
  using C10_AddPhrase [of "\<lparr>phrase_counts = Map.empty\<rparr>" "[1, 2]" "[3, 4]"]
        C10_AddPhrase [of "\<lparr>phrase_counts = [[1, 2] \<mapsto> [3, 4]]\<rparr>" "[1, 2]" "[9]"]
  by (simp add: AddPhrase_def)

subsection \<open>ComputeScore\<close>






subsection \<open>Finalize without averaging\<close>

text \<open>
  Claim C5. With \<open>use_average\<close> false, \<open>Finalize\<close> returns the object as it was, for
  every \<open>num_iterations\<close>: the four stores are unchanged and \<open>Get\<close>, \<open>ComputeScore\<close>,
  \<open>ComputeLabelScores\<close> and \<open>GetSquaredNorm\<close> give the same results after the call as
  before.
\<close>

theorem C5_Finalize_noop:
  assumes "\<not> use_average P"
  shows "Finalize P num_iterations = Some P \<and>
         (\<forall>P'. Finalize P num_iterations = Some P' \<longrightarrow>
            weights P' = weights P \<and> averaged_weights P' = averaged_weights P \<and>
            labeled_weights P' = labeled_weights P \<and>
            averaged_labeled_weights P' = averaged_labeled_weights P \<and>
            (\<forall>key. Get P' key = Get P key) \<and>
            (\<forall>features. ComputeScore P' features = ComputeScore P features) \<and>
            (\<forall>features labels.
               ComputeLabelScores P' features labels = ComputeLabelScores P features labels) \<and>
            GetSquaredNorm P' = GetSquaredNorm P)"
  using assms by (simp add: Finalize_def)

theorem C5_Finalize_noop_witness:
  "\<not> use_average (MakeGradientStep (Initialize Parameters_new False) [7] 1 0 (- 1)) \<and>
   Finalize (MakeGradientStep (Initialize Parameters_new False) [7] 1 0 (- 1)) 0 =
     Some (MakeGradientStep (Initialize Parameters_new False) [7] 1 0 (- 1)) \<and>
   Get (MakeGradientStep (Initialize Parameters_new False) [7] 1 0 (- 1)) 7 = 1"
  using C5_Finalize_noop [of "MakeGradientStep (Initialize Parameters_new False) [7] 1 0 (- 1)" 0]
  by (simp add: store_defs param_defs Let_def)

subsection \<open>Scale and GetSquaredNorm\<close>

lemma spv_Get_Scale: "spv_Get (spv_Scale v c) key = spv_Get v key * (c::real)"
  by (simp add: spv_Get_def spv_Scale_def map_of_map split: option.split)

lemma spv_Exists_Scale: "spv_Exists (spv_Scale v c) key = spv_Exists v key"
  by (simp add: spv_Exists_def spv_Scale_def map_of_map)

lemma label_weight_scale:
  "label_weight (map (\<lambda>(l, w). (l, w * c)) lw) l = label_weight lw l * (c::real)"
  by (simp add: label_weight_def map_of_map split: option.split)

lemma slpv_Get_Scale:
  "slpv_Get (slpv_Scale v c) key labels =
     (fst (slpv_Get v key labels), map (\<lambda>w. w * (c::real)) (snd (slpv_Get v key labels)))"
  by (simp add: slpv_Get_def slpv_Scale_def map_of_map label_weight_scale split: option.split)

text \<open>
  Claim C6. \<open>Scale\<close> leaves both averaged stores as they were and multiplies every
  weight of the live unlabeled store and of the live labeled store by the factor (entry
  by entry, and as read back through \<open>Get\<close>, with the same keys present);
  \<open>GetSquaredNorm\<close> is the sum of the squared norms of the two live stores and does not
  depend on the averaged stores.
\<close>

theorem C6_Scale_GetSquaredNorm_live_only:
  "averaged_weights (Scale P c) = averaged_weights P \<and>
   averaged_labeled_weights (Scale P c) = averaged_labeled_weights P \<and>
   spv_entries (weights (Scale P c)) = map (\<lambda>(key, w). (key, w * c)) (spv_entries (weights P)) \<and>
   slpv_entries (labeled_weights (Scale P c)) =
     map (\<lambda>(key, lw). (key, map (\<lambda>(l, w). (l, w * c)) lw)) (slpv_entries (labeled_weights P)) \<and>
   (\<forall>key. Get (Scale P c) key = Get P key * c) \<and>
   (\<forall>key. Exists (Scale P c) key = Exists P key) \<and>
   (\<forall>key labels. Get_labels (Scale P c) key labels =
      (fst (Get_labels P key labels), map (\<lambda>w. w * c) (snd (Get_labels P key labels)))) \<and>
   GetSquaredNorm P = spv_GetSquaredNorm (weights P) + slpv_GetSquaredNorm (labeled_weights P) \<and>
   (\<forall>a b. GetSquaredNorm (P\<lparr>averaged_weights := a, averaged_labeled_weights := b\<rparr>) =
      GetSquaredNorm P)"
  by (simp add: Scale_def Get_def Exists_def Get_labels_def GetSquaredNorm_def
        spv_Get_Scale spv_Exists_Scale slpv_Get_Scale)
    (simp add: spv_Scale_def slpv_Scale_def)

subsection \<open>StopGrowth and AllowGrowth\<close>










subsection \<open>DecodeCostAugmented\<close>








subsection \<open>ComputeLabelScores and ComputeLabelScoresWithCache\<close>

lemma add_label_scores_length: "length (add_label_scores scores ls n) = length scores"
  by (induction n) (simp_all add: add_label_scores_def)

lemma add_label_scores_nth:
  "i < length scores \<Longrightarrow>
     add_label_scores scores ls n ! i = (if i < n then scores ! i + ls ! i else scores ! i)"
proof (induction n)
  case 0
  then show ?case by (simp add: add_label_scores_def)
next
  case (Suc n)
  have len: "length (fold (\<lambda>k s. s[k := s ! k + ls ! k]) [0..<n] scores) = length scores"
    using add_label_scores_length [of scores ls n] by (simp add: add_label_scores_def)
  show ?case
    using Suc len by (auto simp: add_label_scores_def nth_list_update less_Suc_eq)
qed

lemma lookup_loop:
  fixes scores :: "('w::plus) list"
  shows "case fold (cache_lookup_step f labels) [0..<m] ([], [], scores, c) of
           (rl, adj, sc, c') \<Rightarrow>
             cache c' = cache c \<and>
             hits_count c' + misses_count c' = hits_count c + misses_count c + of_nat m \<and>
             adj = filter (\<lambda>k. Find c \<lparr>feature = f, label = labels ! k\<rparr> = None) [0..<m] \<and>
             rl = map (nth labels) adj \<and>
             length sc = length scores \<and>
             (\<forall>i<length scores. sc ! i =
                (if i < m
                 then (case Find c \<lparr>feature = f, label = labels ! i\<rparr> of
                         None \<Rightarrow> scores ! i | Some v \<Rightarrow> scores ! i + v)
                 else scores ! i))"
proof (induction m)
  case 0
  show ?case by simp
next
  case (Suc m)
  obtain rl adj sc c' where
    st: "fold (cache_lookup_step f labels) [0..<m] ([], [], scores, c) = (rl, adj, sc, c')"
    by (metis prod_cases4)
  note IH = Suc.IH [unfolded st, simplified]
  have Fc: "Find c' key = Find c key" for key using IH by (simp add: Find_def)
  have step: "fold (cache_lookup_step f labels) [0..<Suc m] ([], [], scores, c) =
                cache_lookup_step f labels m (rl, adj, sc, c')"
    by (simp add: st)
  show ?case
  proof (cases "Find c \<lparr>feature = f, label = labels ! m\<rparr>")
    case None
    have "cache_lookup_step f labels m (rl, adj, sc, c') =
            (rl @ [labels ! m], adj @ [m], sc, IncrementMisses c')"
      using None by (simp add: cache_lookup_step_def Fc)
    then show ?thesis unfolding step using IH None
      by (simp add: IncrementMisses_def less_Suc_eq)
  next
    case (Some v)
    have "cache_lookup_step f labels m (rl, adj, sc, c') =
            (rl, adj, sc[m := sc ! m + v], IncrementHits c')"
      using Some by (simp add: cache_lookup_step_def Fc)
    then show ?thesis unfolding step using IH Some
      by (auto simp: IncrementHits_def less_Suc_eq nth_list_update)
  qed
qed


lemma store_loop:
  fixes sc :: "('w::plus) list"
  assumes "distinct adj" and "\<forall>a\<in>set adj. a < length sc" and "m \<le> length adj"
  shows "case fold (cache_store_step f rl adj ls) [0..<m] (sc, c1) of
           (sc2, c2) \<Rightarrow>
             length sc2 = length sc \<and>
             hits_count c2 = hits_count c1 \<and> misses_count c2 = misses_count c1 \<and>
             (\<forall>k<m. sc2 ! (adj ! k) = sc ! (adj ! k) + ls ! k) \<and>
             (\<forall>i. i \<notin> set (take m adj) \<longrightarrow> sc2 ! i = sc ! i) \<and>
             (\<forall>key v. Find c2 key = Some v \<longrightarrow>
                Find c1 key = Some v \<or> (\<exists>k<m. key = \<lparr>feature = f, label = rl ! k\<rparr> \<and> v = ls ! k))"
  using assms(3)
proof (induction m)
  case 0
  show ?case by simp
next
  case (Suc m)
  obtain sc2 c2 where
    st: "fold (cache_store_step f rl adj ls) [0..<m] (sc, c1) = (sc2, c2)"
    by (metis surj_pair)
  have m: "m < length adj" using Suc.prems by simp
  have "m \<le> length adj" using m by simp
  note IH = Suc.IH [OF this, unfolded st, simplified]
  have step: "fold (cache_store_step f rl adj ls) [0..<Suc m] (sc, c1) =
                (sc2[adj ! m := sc2 ! (adj ! m) + ls ! m],
                 Insert c2 \<lparr>feature = f, label = rl ! m\<rparr> (ls ! m))"
    by (simp add: st cache_store_step_def)
  have am: "adj ! m < length sc" using assms(2) m by simp
  have fresh: "adj ! m \<notin> set (take m adj)"
  proof
    assume "adj ! m \<in> set (take m adj)"
    then obtain j where j: "j < m" "adj ! j = adj ! m"
      using m by (auto simp: in_set_conv_nth)
    then show False using assms(1) m by (simp add: nth_eq_iff_index_eq)
  qed
  have tk: "take (Suc m) adj = take m adj @ [adj ! m]"
    using m by (simp add: take_Suc_conv_app_nth)
  have old: "sc2 ! (adj ! m) = sc ! (adj ! m)" using IH fresh by simp
  have a: "length (sc2[adj ! m := sc2 ! (adj ! m) + ls ! m]) = length sc" using IH by simp
  have b: "\<forall>k<Suc m. (sc2[adj ! m := sc2 ! (adj ! m) + ls ! m]) ! (adj ! k) = sc ! (adj ! k) + ls ! k"
  proof (intro allI impI)
    fix k assume k: "k < Suc m"
    show "(sc2[adj ! m := sc2 ! (adj ! m) + ls ! m]) ! (adj ! k) = sc ! (adj ! k) + ls ! k"
    proof (cases "k = m")
      case True
      then show ?thesis using am IH old by simp
    next
      case False
      then have km: "k < m" using k by simp
      then have "adj ! k \<noteq> adj ! m"
        using assms(1) m by (simp add: nth_eq_iff_index_eq)
      then show ?thesis using IH km by simp
    qed
  qed
  have c: "\<forall>i. i \<notin> set (take (Suc m) adj) \<longrightarrow> (sc2[adj ! m := sc2 ! (adj ! m) + ls ! m]) ! i = sc ! i"
    using IH by (simp add: tk)
  have d: "\<forall>key v. Find (Insert c2 \<lparr>feature = f, label = rl ! m\<rparr> (ls ! m)) key = Some v \<longrightarrow>
             Find c1 key = Some v \<or> (\<exists>k<Suc m. key = \<lparr>feature = f, label = rl ! k\<rparr> \<and> v = ls ! k)"
  proof (intro allI impI)
    fix key v
    assume h: "Find (Insert c2 \<lparr>feature = f, label = rl ! m\<rparr> (ls ! m)) key = Some v"
    then have "Find c2 key = Some v \<or> (key = \<lparr>feature = f, label = rl ! m\<rparr> \<and> v = ls ! m)"
      by (auto simp: Find_def Insert_def split: option.splits if_splits)
    then show "Find c1 key = Some v \<or> (\<exists>k<Suc m. key = \<lparr>feature = f, label = rl ! k\<rparr> \<and> v = ls ! k)"
      using IH by (metis less_Suc_eq)
  qed
  have e: "hits_count (Insert c2 \<lparr>feature = f, label = rl ! m\<rparr> (ls ! m)) = hits_count c1 \<and>
           misses_count (Insert c2 \<lparr>feature = f, label = rl ! m\<rparr> (ls ! m)) = misses_count c1"
    using IH by (simp add: Insert_counters)
  show ?case unfolding step using a b c d e by simp
qed


lemma Get_labels_present:
  "map_of (slpv_entries (labeled_weights P)) f = Some lw \<Longrightarrow>
     Get_labels P f ls = (True, map (label_weight lw) ls) \<and> ExistsLabeled P f"
  by (simp add: Get_labels_def slpv_Get_def ExistsLabeled_def slpv_Exists_def)

lemma Get_labels_absent:
  "\<not> ExistsLabeled P f \<Longrightarrow> Get_labels P f ls = (False, [])"
  by (simp add: Get_labels_def slpv_Get_def ExistsLabeled_def slpv_Exists_def)

lemma score_feature_with_cache_absent:
  "\<not> ExistsLabeled P f \<Longrightarrow> score_feature_with_cache P labels f (scores, c) = (scores, c)"
  by (simp add: score_feature_with_cache_def)

lemma score_feature_with_cache_present:
  fixes P :: "('w::{zero,plus}) Parameters"
  assumes ex: "map_of (slpv_entries (labeled_weights P)) f = Some lw"
    and cons: "cache_consistent P c"
    and len: "length scores = length labels"
  shows "case score_feature_with_cache P labels f (scores, c) of
           (scores', c') \<Rightarrow>
             scores' = add_label_scores scores (map (label_weight lw) labels) (length labels) \<and>
             cache_consistent P c' \<and>
             hits_count c' + misses_count c' =
               hits_count c + misses_count c + of_nat (length labels)"
proof -
  let ?n = "length labels"
  let ?miss = "\<lambda>k. Find c \<lparr>feature = f, label = labels ! k\<rparr> = None"
  obtain rl adj sc c1 where
    st: "fold (cache_lookup_step f labels) [0..<?n] ([], [], scores, c) = (rl, adj, sc, c1)"
    by (metis prod_cases4)
  note L = lookup_loop [where f = f and labels = labels and m = ?n and scores = scores and c = c,
      unfolded st, simplified]
  have adj: "adj = filter ?miss [0..<?n]" using L by simp
  have rl: "rl = map (nth labels) adj" using L by simp
  have lsc: "length sc = ?n" using L len by simp
  have dist: "distinct adj" unfolding adj by simp
  have bound: "\<forall>a\<in>set adj. a < length sc" unfolding adj lsc by simp
  have exl: "ExistsLabeled P f" using ex by (simp add: Get_labels_present)
  let ?ls = "map (label_weight lw) rl"
  have G: "Get_labels P f rl = (True, ?ls)" using ex by (simp add: Get_labels_present)
  have res: "score_feature_with_cache P labels f (scores, c) =
               fold (cache_store_step f rl adj ?ls) [0..<length rl] (sc, c1)"
    by (cases "rl = []") (simp_all add: score_feature_with_cache_def exl st G)
  obtain sc2 c2 where
    st2: "fold (cache_store_step f rl adj ?ls) [0..<length rl] (sc, c1) = (sc2, c2)"
    by (metis surj_pair)
  have lrl: "length rl = length adj" using rl by simp
  have "length rl \<le> length adj" using lrl by simp
  note S0 = store_loop [where f = f and rl = rl and ls = ?ls and ?c1.0 = c1, OF dist bound this,
      unfolded st2]
  have S1: "length sc2 = length sc" using S0 by simp
  have S2: "hits_count c2 = hits_count c1 \<and> misses_count c2 = misses_count c1" using S0 by simp
  have S3: "sc2 ! (adj ! k) = sc ! (adj ! k) + ?ls ! k" if "k < length adj" for k
    using S0 that lrl by simp
  have S4: "sc2 ! i = sc ! i" if "i \<notin> set adj" for i
    using S0 that lrl by simp
  have S5: "Find c1 key = Some v \<or> (\<exists>k<length rl. key = \<lparr>feature = f, label = rl ! k\<rparr> \<and> v = ?ls ! k)"
    if "Find c2 key = Some v" for key v
    using S0 that by blast
  have cons_val: "label_weight lw l = v"
    if "Find c \<lparr>feature = f, label = l\<rparr> = Some v" for l v
  proof -
    have "Get_labels P f [l] = (True, [v])"
      using cons that exl by (simp add: cache_consistent_def)
    then show ?thesis using ex by (simp add: Get_labels_present)
  qed
  have nth_eq: "sc2 ! i = scores ! i + label_weight lw (labels ! i)" if i: "i < ?n" for i
  proof (cases "?miss i")
    case True
    then have "i \<in> set adj" using i by (simp add: adj)
    then obtain k where k: "k < length adj" "adj ! k = i" by (auto simp: in_set_conv_nth)
    have "sc2 ! i = sc ! i + ?ls ! k" using S3 [OF k(1)] k(2) by simp
    moreover have "?ls ! k = label_weight lw (labels ! i)" using k rl by simp
    moreover have "sc ! i = scores ! i" using L i len True by simp
    ultimately show ?thesis by simp
  next
    case False
    then obtain v where v: "Find c \<lparr>feature = f, label = labels ! i\<rparr> = Some v" by auto
    have "i \<notin> set adj" using False by (simp add: adj)
    then have "sc2 ! i = sc ! i" by (rule S4)
    moreover have "sc ! i = scores ! i + v" using L i len v by simp
    ultimately show ?thesis using cons_val [OF v] by simp
  qed
  have scores_eq: "sc2 = add_label_scores scores (map (label_weight lw) labels) ?n"
  proof (rule nth_equalityI)
    show "length sc2 = length (add_label_scores scores (map (label_weight lw) labels) ?n)"
      using S1 lsc len by (simp add: add_label_scores_length)
  next
    fix i assume "i < length sc2"
    then have i: "i < ?n" using S1 lsc by simp
    then show "sc2 ! i = add_label_scores scores (map (label_weight lw) labels) ?n ! i"
      using nth_eq [OF i] len by (simp add: add_label_scores_nth)
  qed
  have cons2: "cache_consistent P c2"
    unfolding cache_consistent_def
  proof (intro allI impI)
    fix f' l v
    assume h: "Find c2 \<lparr>feature = f', label = l\<rparr> = Some v" and e: "ExistsLabeled P f'"
    from S5 [OF h] have "Find c1 \<lparr>feature = f', label = l\<rparr> = Some v \<or>
        (\<exists>k<length rl. \<lparr>feature = f', label = l\<rparr> = \<lparr>feature = f, label = rl ! k\<rparr> \<and> v = ?ls ! k)"
      .
    then show "Get_labels P f' [l] = (True, [v])"
    proof
      assume "Find c1 \<lparr>feature = f', label = l\<rparr> = Some v"
      then have "Find c \<lparr>feature = f', label = l\<rparr> = Some v" using L by (simp add: Find_def)
      then show ?thesis using cons e by (simp add: cache_consistent_def)
    next
      assume "\<exists>k<length rl. \<lparr>feature = f', label = l\<rparr> = \<lparr>feature = f, label = rl ! k\<rparr> \<and> v = ?ls ! k"
      then obtain k where k: "k < length rl" "f' = f" "l = rl ! k" "v = ?ls ! k" by auto
      then show ?thesis using ex by (simp add: Get_labels_present)
    qed
  qed
  have cnt: "hits_count c2 + misses_count c2 = hits_count c + misses_count c + of_nat ?n"
    using S2 L by simp
  show ?thesis unfolding res st2 using scores_eq cons2 cnt by simp
qed







lemma fold_score_feature_scores:
  fixes P :: "('w::{zero,plus}) Parameters"
  assumes "cache_consistent P c" and "length scores = length labels"
  shows "case fold (score_feature_with_cache P labels) features (scores, c) of
           (scores', c') \<Rightarrow>
             scores' =
               fold (\<lambda>f scores.
                       let (found, label_scores) = Get_labels P f labels in
                       if \<not> found then scores
                       else add_label_scores scores label_scores (length labels))
                    features scores \<and>
             cache_consistent P c'"
  using assms
proof (induction features arbitrary: scores c)
  case Nil
  then show ?case by simp
next
  case (Cons f features)
  show ?case
  proof (cases "map_of (slpv_entries (labeled_weights P)) f")
    case None
    then have ne: "\<not> ExistsLabeled P f" by (simp add: ExistsLabeled_def slpv_Exists_def)
    show ?thesis
      using Cons.IH [OF Cons.prems]
      by (simp add: score_feature_with_cache_absent [OF ne] Get_labels_absent [OF ne])
  next
    case (Some lw)
    obtain s1 c1 where st: "score_feature_with_cache P labels f (scores, c) = (s1, c1)"
      by (metis surj_pair)
    note F = score_feature_with_cache_present [OF Some Cons.prems, unfolded st]
    have s1: "s1 = add_label_scores scores (map (label_weight lw) labels) (length labels)"
      using F by simp
    have c1: "cache_consistent P c1" using F by simp
    have l1: "length s1 = length labels" using s1 Cons.prems by (simp add: add_label_scores_length)
    show ?thesis
      using Cons.IH [OF c1 l1] by (simp add: st s1 Get_labels_present [OF Some])
  qed
qed

lemma cache_consistent_empty: "cache c = Map.empty \<Longrightarrow> cache_consistent P c"
  by (simp add: cache_consistent_def Find_def)

text \<open>
  Claim C2. When every cached entry agrees with the labeled store (in particular when
  the cache is empty), \<open>ComputeLabelScoresWithCache\<close> returns the same scores as
  \<open>ComputeLabelScores\<close> on the same features, labels and store; the object differs from
  the one before the call in the cache only, and the cache still agrees with the store.
  The weight type is arbitrary and no law of addition is used, so the equality is one of
  the values computed, addition by addition.
\<close>

theorem C2_cached_scores_identical:
  fixes P :: "('w::{zero,plus}) Parameters"
  assumes "cache_consistent P (caching_weights P) \<or> cache (caching_weights P) = Map.empty"
  shows "fst (ComputeLabelScoresWithCache P features labels) = ComputeLabelScores P features labels \<and>
         (snd (ComputeLabelScoresWithCache P features labels))\<lparr>caching_weights := caching_weights P\<rparr> = P \<and>
         cache_consistent (snd (ComputeLabelScoresWithCache P features labels))
           (caching_weights (snd (ComputeLabelScoresWithCache P features labels)))"
proof -
  have cons: "cache_consistent P (caching_weights P)"
    using assms cache_consistent_empty by blast
  obtain s c where
    st: "fold (score_feature_with_cache P labels) features
           (replicate (length labels) 0, caching_weights P) = (s, c)"
    by (metis surj_pair)
  have "length (replicate (length labels) (0::'w)) = length labels" by simp
  note F = fold_score_feature_scores [OF cons this, of features, unfolded st]
  have r: "ComputeLabelScoresWithCache P features labels = (s, P\<lparr>caching_weights := c\<rparr>)"
    by (simp add: ComputeLabelScoresWithCache_def st)
  have cc: "cache_consistent (P\<lparr>caching_weights := c\<rparr>) c"
    using F by (simp add: cache_consistent_def ExistsLabeled_def Get_labels_def)
  show ?thesis using F cc by (simp add: r ComputeLabelScores_def)
qed



theorem C2_cached_scores_identical_witness:
  "cache (caching_weights (MakeLabelGradientStep (Initialize Parameters_new True) [7] 1 0 2 (- 1)))
     = Map.empty \<and>
   fst (ComputeLabelScoresWithCache
          (MakeLabelGradientStep (Initialize Parameters_new True) [7] 1 0 2 (- 1)) [7, 8, 7] [2, 3])
     = [2, 0] \<and>
   ComputeLabelScores
          (MakeLabelGradientStep (Initialize Parameters_new True) [7] 1 0 2 (- 1)) [7, 8, 7] [2, 3]
     = [2, 0] \<and>
   cache_consistent
     (snd (ComputeLabelScoresWithCache
             (MakeLabelGradientStep (Initialize Parameters_new True) [7] 1 0 2 (- 1)) [7] [2, 3]))
     (caching_weights (snd (ComputeLabelScoresWithCache
             (MakeLabelGradientStep (Initialize Parameters_new True) [7] 1 0 2 (- 1)) [7] [2, 3]))) \<and>
   cache (caching_weights (snd (ComputeLabelScoresWithCache
             (MakeLabelGradientStep (Initialize Parameters_new True) [7] 1 0 2 (- 1)) [7] [2, 3])))
     = [\<lparr>feature = 7, label = 2\<rparr> \<mapsto> 1, \<lparr>feature = 7, label = 3\<rparr> \<mapsto> 0] \<and>
   fst (ComputeLabelScoresWithCache
          (snd (ComputeLabelScoresWithCache
             (MakeLabelGradientStep (Initialize Parameters_new True) [7] 1 0 2 (- 1)) [7] [2, 3]))
          [7, 8, 7] [3, 2])
     = [0, 2]"
  using C2_cached_scores_identical
          [of "MakeLabelGradientStep (Initialize Parameters_new True) [7] 1 0 2 (- 1)"
              "[7, 8, 7]" "[2, 3]"]
        C2_cached_scores_identical
          [of "MakeLabelGradientStep (Initialize Parameters_new True) [7] 1 0 2 (- 1)"
              "[7]" "[2, 3]"]
        C2_cached_scores_identical
          [of "snd (ComputeLabelScoresWithCache
                 (MakeLabelGradientStep (Initialize Parameters_new True) [7] 1 0 2 (- 1)) [7] [2, 3])"
              "[7, 8, 7]" "[3, 2]"]
  by (simp add: store_defs param_defs cache_defs Let_def)

subsection \<open>MakeGradientStep and Finalize: the averaging identity\<close>















end
